theory Spec2Isabelle
  imports Complex_Main
begin

chapter \<open>The retrieval core of the audit intelligence platform\<close>

text \<open>
  A shallow embedding of the Python sources: parent-child retrieval, identity resolution,
  the advanced retrieval pipeline with its retries and fall-backs, the multi-index engine,
  the answer cache, the access filter and the request handlers of \<open>main.py\<close> that ingest
  and delete documents. Exceptions are values of a sum type (\<open>Inl\<close> the exception), mutation
  is explicit state passing, and the external services (retrievers, re-ranker, language
  model, loader, hash function) are parameters. The model comes first, the properties
  after it.
\<close>

section \<open>Documents and their metadata\<close>

text \<open>
  A LangChain \<open>Document\<close> is a text with a metadata dictionary. The dictionary is kept as
  an association list read with \<open>map_of\<close> (Python's \<open>metadata.get(key)\<close>); only string
  valued entries (\<open>parent_id\<close>, \<open>access_group\<close>, \<open>source\<close>, \<open>filename\<close>, ...) are read by
  the code modelled here.
\<close>

record document =
  page_content :: string
  metadata :: "(string \<times> string) list"

definition md_get :: "document \<Rightarrow> string \<Rightarrow> string option" where
  "md_get d k = map_of (metadata d) k"

section \<open>Parent-child retrieval (services/parent_child_retriever.py)\<close>

text \<open>
  \<open>parent_store\<close> is the dictionary \<open>{parent_id: Document}\<close>.

  \<open>get_parents_for_children\<close> is the loop
  \<^verbatim>\<open>
    seen_parent_ids = set(); parents = []
    for child in child_docs:
        parent_id = child.metadata.get("parent_id")
        if parent_id and parent_id not in seen_parent_ids:
            parent = self.parent_store.get(parent_id)
            if parent:
                parents.append(parent)
                seen_parent_ids.add(parent_id)
    return parents
  \<close>
  with the two accumulators passed along. \<open>if parent_id\<close> is false for \<open>None\<close> and for the
  empty string; a \<open>Document\<close> is always truthy, so \<open>if parent\<close> only tests for \<open>None\<close>.
\<close>

type_synonym parent_store = "string \<rightharpoonup> document"

fun get_parents_loop ::
  "parent_store \<Rightarrow> document list \<Rightarrow> string set \<Rightarrow> document list \<Rightarrow> document list" where
  "get_parents_loop store [] seen_parent_ids parents = parents"
| "get_parents_loop store (child # rest) seen_parent_ids parents =
     (case md_get child ''parent_id'' of
        None \<Rightarrow> get_parents_loop store rest seen_parent_ids parents
      | Some parent_id \<Rightarrow>
          if parent_id \<noteq> [] \<and> parent_id \<notin> seen_parent_ids then
            (case store parent_id of
               None \<Rightarrow> get_parents_loop store rest seen_parent_ids parents
             | Some parent \<Rightarrow>
                 get_parents_loop store rest (insert parent_id seen_parent_ids) (parents @ [parent]))
          else get_parents_loop store rest seen_parent_ids parents)"

definition get_parents_for_children :: "parent_store \<Rightarrow> document list \<Rightarrow> document list" where
  "get_parents_for_children store child_docs = get_parents_loop store child_docs {} []"

subsection \<open>The specification's reading of \<open>resolve_parents\<close>\<close>

text \<open>
  The parent ids the children carry, in input order, keeping only those that resolve
  (a non-empty id that is a key of the store); then every id at its first occurrence only;
  then the parents stored under these ids.
\<close>

fun child_parent_ids :: "document list \<Rightarrow> string list" where
  "child_parent_ids [] = []"
| "child_parent_ids (child # rest) =
     (case md_get child ''parent_id'' of
        None \<Rightarrow> child_parent_ids rest
      | Some parent_id \<Rightarrow> parent_id # child_parent_ids rest)"

definition resolvable_ids :: "parent_store \<Rightarrow> document list \<Rightarrow> string list" where
  "resolvable_ids store child_docs =
     filter (\<lambda>parent_id. parent_id \<noteq> [] \<and> store parent_id \<noteq> None) (child_parent_ids child_docs)"

fun first_occurrences :: "'a list \<Rightarrow> 'a list" where
  "first_occurrences [] = []"
| "first_occurrences (x # xs) = x # removeAll x (first_occurrences xs)"

definition resolve_parents_spec :: "parent_store \<Rightarrow> document list \<Rightarrow> document list" where
  "resolve_parents_spec store child_docs =
     map (\<lambda>parent_id. the (store parent_id)) (first_occurrences (resolvable_ids store child_docs))"

text \<open>Position of the first occurrence of an element (the length of the list when absent).\<close>

fun first_index :: "'a list \<Rightarrow> 'a \<Rightarrow> nat" where
  "first_index [] y = 0"
| "first_index (x # xs) y = (if x = y then 0 else Suc (first_index xs y))"

text \<open>A store with two parents, and five children: two of \<open>p2\<close>, one of \<open>p1\<close>, one without
  a parent id and one whose parent is not stored.\<close>

definition example_parent_store :: parent_store where
  "example_parent_store =
     [''p1'' \<mapsto> \<lparr>page_content = ''first parent'', metadata = [(''parent_id'', ''p1'')]\<rparr>,
      ''p2'' \<mapsto> \<lparr>page_content = ''second parent'', metadata = [(''parent_id'', ''p2'')]\<rparr>]"

definition example_children :: "document list" where
  "example_children =
     [\<lparr>page_content = ''c7'', metadata = [(''parent_id'', ''p2'')]\<rparr>,
      \<lparr>page_content = ''c0'', metadata = []\<rparr>,
      \<lparr>page_content = ''c9'', metadata = [(''parent_id'', ''p9'')]\<rparr>,
      \<lparr>page_content = ''c3'', metadata = [(''parent_id'', ''p1'')]\<rparr>,
      \<lparr>page_content = ''c12'', metadata = [(''parent_id'', ''p2'')]\<rparr>]"

section \<open>Role based access control (security/access_control.py)\<close>

record user_role =
  name :: string
  access_groups :: "string list"

definition USER_ROLES :: "(string \<times> user_role) list" where
  "USER_ROLES =
     [(''admin'', \<lparr>name = ''Admin'',
                   access_groups = [''GLOBAL_AUDIT'', ''APAC_AUDIT'', ''EMEA_AUDIT'', ''ALL'']\<rparr>),
      (''apac_auditor'', \<lparr>name = ''APAC Auditor'',
                          access_groups = [''APAC_AUDIT'', ''GLOBAL_AUDIT'']\<rparr>),
      (''emea_auditor'', \<lparr>name = ''EMEA Auditor'',
                          access_groups = [''EMEA_AUDIT'', ''GLOBAL_AUDIT'']\<rparr>),
      (''viewer'', \<lparr>name = ''Viewer'', access_groups = [''GLOBAL_AUDIT'']\<rparr>)]"

text \<open>
  The resolved identity \<open>{"role": role, **user}\<close>, and the request as far as identity
  resolution reads it: its headers, \<open>headers.get(name)\<close> being \<open>None\<close> for an absent header.
\<close>

record user =
  role :: string
  user_name :: string
  user_access_groups :: "string list"

record request =
  headers :: "string \<rightharpoonup> string"

datatype http_exception = HTTPException nat string

definition get_current_user :: "request \<Rightarrow> http_exception + user" where
  "get_current_user req =
     (let role = (case headers req ''X-User-Role'' of None \<Rightarrow> ''admin'' | Some r \<Rightarrow> r) in
      case map_of USER_ROLES role of
        None \<Rightarrow> Inl (HTTPException 403 (''Unknown role: '' @ role))
      | Some u \<Rightarrow> Inr \<lparr>role = role, user_name = name u, user_access_groups = access_groups u\<rparr>)"

text \<open>The known roles are the keys of \<open>USER_ROLES\<close>.\<close>

definition known_roles :: "string set" where
  "known_roles = fst ` set USER_ROLES"

section \<open>Configuration (config.py)\<close>

text \<open>The settings the modelled code reads, with their defaults.\<close>

record settings =
  retrieval_top_k :: int
  rerank_top_n :: int
  cache_ttl_seconds :: nat
  cohere_api_key :: string

definition default_settings :: settings where
  "default_settings =
     \<lparr>retrieval_top_k = 20, rerank_top_n = 5, cache_ttl_seconds = 3600, cohere_api_key = ''''\<rparr>"

section \<open>Advanced retrieval (services/advanced_retrieval.py)\<close>

text \<open>
  The retrievers and the re-ranker are external services: a call either returns documents
  or raises. Their behaviour is a parameter of the model, a function of the question and
  of the index of the call (calls are numbered from 0 in the order \<open>retrieve\<close> makes
  them), so that a service may fail on one call and answer on the next.
\<close>

datatype exn = ExternalError string | RetryError | ValueError string | TypeError string

record external_services =
  base_invoke :: "string \<Rightarrow> nat \<Rightarrow> exn + document list"
  multi_query_invoke :: "string \<Rightarrow> nat \<Rightarrow> exn + document list"
  rerank_invoke :: "string \<Rightarrow> nat \<Rightarrow> exn + document list"

text \<open>
  The service object: \<open>self.reranker\<close> (\<open>None\<close> unless a Cohere key is configured and the
  re-ranker could be built) and \<open>self.parent_child\<close> (\<open>None\<close> or a \<open>ParentChildRetriever\<close>,
  whose state is its parent store).
\<close>

datatype reranker = CohereRerank int

record advanced_retrieval_service =
  reranker :: "reranker option"
  parent_child :: "parent_store option"

text \<open>
  tenacity's \<open>@retry(stop=stop_after_attempt(n), wait=...)\<close>: the call is attempted until it
  returns, at most \<open>n\<close> times; when the last attempt raises too, \<open>RetryError\<close> is raised.
  The second component is the index of the next external call. The waiting between
  attempts is not modelled.
\<close>

fun retry_attempts :: "nat \<Rightarrow> (nat \<Rightarrow> exn + 'a) \<Rightarrow> nat \<Rightarrow> (exn + 'a) \<times> nat" where
  "retry_attempts 0 call t = (Inl RetryError, t)"
| "retry_attempts (Suc n) call t =
     (case call t of
        Inr v \<Rightarrow> (Inr v, Suc t)
      | Inl e \<Rightarrow> retry_attempts n call (Suc t))"

definition retrieve_attempt :: "external_services \<Rightarrow> string \<Rightarrow> bool \<Rightarrow> nat \<Rightarrow> exn + document list" where
  "retrieve_attempt env question use_multi_query t =
     (if use_multi_query then multi_query_invoke env question t
      else base_invoke env question t)"

definition retrieve_with_retry ::
  "external_services \<Rightarrow> string \<Rightarrow> bool \<Rightarrow> nat \<Rightarrow> (exn + document list) \<times> nat" where
  "retrieve_with_retry env question use_multi_query t =
     retry_attempts 3 (retrieve_attempt env question use_multi_query) t"

text \<open>Python's slice \<open>xs[:n]\<close>: a negative \<open>n\<close> counts from the end.\<close>

definition py_slice_to :: "'a list \<Rightarrow> int \<Rightarrow> 'a list" where
  "py_slice_to xs n = (if 0 \<le> n then take (nat n) xs else take (length xs - nat (- n)) xs)"

text \<open>
  Steps 2 and 3 of \<open>retrieve\<close>, on the candidates \<open>docs\<close> of step 1, \<open>t\<close> being the index of
  the next external call:
  \<^verbatim>\<open>
    if use_reranking and self.reranker and len(docs) > 0:
        try:
            ...; docs = rerank_retriever.invoke(question)
        except Exception as e:
            docs = docs[:settings.rerank_top_n]
    if use_parent_child and self.parent_child:
        try:
            parent_docs = self.parent_child.get_parents_for_children(docs)
            if parent_docs:
                docs = parent_docs
        except Exception as e: ...
    return docs
  \<close>
\<close>

definition retrieve_steps_2_3 ::
  "external_services \<Rightarrow> advanced_retrieval_service \<Rightarrow> settings \<Rightarrow> string \<Rightarrow> bool \<Rightarrow> bool
     \<Rightarrow> document list \<Rightarrow> nat \<Rightarrow> exn + document list" where
  "retrieve_steps_2_3 env svc st question use_reranking use_parent_child docs t =
     (let docs2 =
            (if use_reranking \<and> reranker svc \<noteq> None \<and> length docs > 0 then
               (case rerank_invoke env question t of
                  Inr reranked \<Rightarrow> reranked
                | Inl e \<Rightarrow> py_slice_to docs (rerank_top_n st))
             else docs);
          docs3 =
            (if use_parent_child then
               (case parent_child svc of
                  None \<Rightarrow> docs2
                | Some store \<Rightarrow>
                    (let parent_docs = get_parents_for_children store docs2 in
                     if parent_docs \<noteq> [] then parent_docs else docs2))
             else docs2)
      in Inr docs3)"

text \<open>
  \<open>retrieve\<close>. Step 1 is
  \<^verbatim>\<open>
    try:
        docs = self._retrieve_with_retry(question, use_multi_query)
    except Exception as e:
        try:
            docs = self.base_retriever.invoke(question)
        except Exception:
            return []
  \<close>
\<close>

definition retrieve ::
  "external_services \<Rightarrow> advanced_retrieval_service \<Rightarrow> settings \<Rightarrow> string \<Rightarrow> bool \<Rightarrow> bool \<Rightarrow> bool
     \<Rightarrow> exn + document list" where
  "retrieve env svc st question use_reranking use_multi_query use_parent_child =
     (case retrieve_with_retry env question use_multi_query 0 of
        (Inr docs, t) \<Rightarrow>
          retrieve_steps_2_3 env svc st question use_reranking use_parent_child docs t
      | (Inl e, t) \<Rightarrow>
          (case base_invoke env question t of
             Inr docs \<Rightarrow>
               retrieve_steps_2_3 env svc st question use_reranking use_parent_child docs (Suc t)
           | Inl e' \<Rightarrow> Inr []))"

text \<open>
  The outcome of step 1 on its own: the candidates and the index of the next external call,
  or \<open>None\<close> when \<open>retrieve\<close> returns the empty list at once.
\<close>

definition candidate_stage ::
  "external_services \<Rightarrow> string \<Rightarrow> bool \<Rightarrow> (document list \<times> nat) option" where
  "candidate_stage env question use_multi_query =
     (case retrieve_with_retry env question use_multi_query 0 of
        (Inr docs, t) \<Rightarrow> Some (docs, t)
      | (Inl e, t) \<Rightarrow>
          (case base_invoke env question t of
             Inr docs \<Rightarrow> Some (docs, Suc t)
           | Inl e' \<Rightarrow> None))"

text \<open>
  Example services. In \<open>flaky_services\<close> the multi-query retriever fails on every call and
  the base retriever answers with the five example children; the re-ranker always fails.
  In \<open>down_services\<close> every call fails.
\<close>

definition flaky_services :: external_services where
  "flaky_services =
     \<lparr>base_invoke = (\<lambda>q t. Inr example_children),
      multi_query_invoke = (\<lambda>q t. Inl (ExternalError ''timeout'')),
      rerank_invoke = (\<lambda>q t. Inl (ExternalError ''reranker unavailable''))\<rparr>"

definition down_services :: external_services where
  "down_services =
     \<lparr>base_invoke = (\<lambda>q t. Inl (ExternalError ''connection refused'')),
      multi_query_invoke = (\<lambda>q t. Inl (ExternalError ''timeout'')),
      rerank_invoke = (\<lambda>q t. Inl (ExternalError ''reranker unavailable''))\<rparr>"

definition example_service :: advanced_retrieval_service where
  "example_service = \<lparr>reranker = Some (CohereRerank 5), parent_child = Some example_parent_store\<rparr>"

definition example_service_no_parents :: advanced_retrieval_service where
  "example_service_no_parents = \<lparr>reranker = Some (CohereRerank 5), parent_child = None\<rparr>"

section \<open>Multi-index engine (services/llamaindex_multi_engine.py)\<close>

text \<open>
  Python dictionaries whose order matters (\<open>query_engines\<close> is iterated, and its first
  value is taken) are association lists: assigning to a key that is present keeps the
  key's position, a new key goes to the end.
\<close>

fun dict_set :: "'k \<Rightarrow> 'v \<Rightarrow> ('k \<times> 'v) list \<Rightarrow> ('k \<times> 'v) list" where
  "dict_set k v [] = [(k, v)]"
| "dict_set k v ((k', v') # d) = (if k' = k then (k, v) # d else (k', v') # dict_set k v d)"

definition dict_keys :: "('k \<times> 'v) list \<Rightarrow> 'k list" where
  "dict_keys d = map fst d"

text \<open>
  The input dictionaries of \<open>add_documents\<close> (\<open>content\<close>, and \<open>metadata\<close> which may be absent),
  LlamaIndex's nodes, and its objects as far as the engine builds them: an index is the
  list of nodes it was built from.
\<close>

record llama_doc =
  content :: string
  doc_metadata :: "(string \<times> string) list option"

record text_node =
  node_text :: string
  node_metadata :: "(string \<times> string) list"

datatype vector_store_index = VectorStoreIndex "text_node list"

record query_engine =
  engine_index :: vector_store_index
  similarity_top_k :: nat
  response_mode :: string

record query_engine_tool =
  tool_engine :: query_engine
  tool_description :: string

datatype router_query_engine = RouterQueryEngine "query_engine_tool list"

datatype sub_question_query_engine = SubQuestionQueryEngine "query_engine_tool list"

record multi_index_engine =
  indexes :: "(string \<times> vector_store_index option) list"
  query_engines :: "(string \<times> query_engine) list"
  router_engine :: "router_query_engine option"
  sub_question_engine :: "sub_question_query_engine option"

definition new_multi_index_engine :: multi_index_engine where
  "new_multi_index_engine =
     \<lparr>indexes = [(''audit'', None), (''policy'', None), (''financial'', None)],
      query_engines = [],
      router_engine = None,
      sub_question_engine = None\<rparr>"

definition descriptions :: "(string \<times> string) list" where
  "descriptions =
     [(''audit'', ''Audit reports, findings, observations, risk assessments, and remediation status''),
      (''policy'', ''Compliance policies, regulations, procedures, and governance frameworks''),
      (''financial'', ''Financial data, budgets, cost allocations, and financial tracking spreadsheets'')]"

definition make_tool :: "string \<times> query_engine \<Rightarrow> query_engine_tool" where
  "make_tool entry =
     (case entry of (category, qe) \<Rightarrow>
        \<lparr>tool_engine = qe,
         tool_description =
           (case map_of descriptions category of
              Some d \<Rightarrow> d
            | None \<Rightarrow> ''Documents in the '' @ category @ '' collection'')\<rparr>)"

definition rebuild_engines :: "multi_index_engine \<Rightarrow> multi_index_engine" where
  "rebuild_engines e =
     (let tools = map make_tool (query_engines e) in
      if length tools \<ge> 2 then
        e\<lparr>router_engine := Some (RouterQueryEngine tools),
          sub_question_engine := Some (SubQuestionQueryEngine tools)\<rparr>
      else e)"

definition make_node :: "llama_doc \<Rightarrow> text_node" where
  "make_node doc =
     \<lparr>node_text = content doc,
      node_metadata = (case doc_metadata doc of None \<Rightarrow> [] | Some m \<Rightarrow> m)\<rparr>"

definition add_documents ::
  "multi_index_engine \<Rightarrow> llama_doc list \<Rightarrow> string \<Rightarrow> exn + multi_index_engine" where
  "add_documents e documents index_name =
     (if index_name \<notin> set (dict_keys (indexes e)) then
        Inl (ValueError (''Unknown index: '' @ index_name))
      else
        (let nodes = map make_node documents;
             e1 = e\<lparr>indexes := dict_set index_name (Some (VectorStoreIndex nodes)) (indexes e)\<rparr>;
             e2 = e1\<lparr>query_engines :=
                       dict_set index_name
                         \<lparr>engine_index = VectorStoreIndex nodes, similarity_top_k = 5,
                          response_mode = ''compact''\<rparr>
                         (query_engines e1)\<rparr>
         in Inr (rebuild_engines e2)))"

text \<open>
  Answering is an external service (the language model behind LlamaIndex): a parameter
  that maps the engine queried and the question to a response or an exception. Scores are
  floats; Python's \<open>round(score, 4)\<close> is a parameter as well.
\<close>

datatype engine =
  UseSubQuestion sub_question_query_engine
| UseRouter router_query_engine
| UseSingle query_engine

record node_with_score =
  node :: text_node
  score :: "real option"

record response =
  response_text :: string
  source_nodes :: "node_with_score list"

record llama_services =
  engine_query :: "engine \<Rightarrow> string \<Rightarrow> exn + response"
  round4 :: "real \<Rightarrow> real"

record source_entry =
  source_content :: string
  source_name :: string
  source_file_type :: string
  relevance_score :: "real option"

record query_result =
  answer :: string
  sources :: "source_entry list"

definition format_source :: "llama_services \<Rightarrow> node_with_score \<Rightarrow> source_entry" where
  "format_source llama n =
     \<lparr>source_content =
        (if length (node_text (node n)) > 300 then take 300 (node_text (node n)) @ ''...''
         else node_text (node n)),
      source_name =
        (case map_of (node_metadata (node n)) ''filename'' of None \<Rightarrow> ''Unknown'' | Some f \<Rightarrow> f),
      source_file_type =
        (case map_of (node_metadata (node n)) ''file_type'' of None \<Rightarrow> ''unknown'' | Some f \<Rightarrow> f),
      relevance_score =
        (case score n of
           None \<Rightarrow> None
         | Some s \<Rightarrow> if s = 0 then None else Some (round4 llama s))\<rparr>"

definition format_response :: "llama_services \<Rightarrow> response \<Rightarrow> query_result" where
  "format_response llama r =
     \<lparr>answer = response_text r, sources = map (format_source llama) (source_nodes r)\<rparr>"

definition no_documents_result :: query_result where
  "no_documents_result = \<lparr>answer = ''No documents indexed yet.'', sources = []\<rparr>"

text \<open>
  \<open>query\<close>:
  \<^verbatim>\<open>
    engine = None
    if engine_type == "sub_question" and self.sub_question_engine:
        engine = self.sub_question_engine
    elif self.router_engine:
        engine = self.router_engine
    elif self.query_engines:
        # Fallback: use the first available engine
        engine = list(self.query_engines.values())[0]
    if engine is None:
        return {"answer": "No documents indexed yet.", "sources": []}
    response = engine.query(question)
    ...
  \<close>
\<close>

definition select_engine :: "multi_index_engine \<Rightarrow> string \<Rightarrow> engine option" where
  "select_engine e engine_type =
     (case (if engine_type = ''sub_question'' then sub_question_engine e else None) of
        Some sq \<Rightarrow> Some (UseSubQuestion sq)
      | None \<Rightarrow>
          (case router_engine e of
             Some r \<Rightarrow> Some (UseRouter r)
           | None \<Rightarrow>
               (case query_engines e of
                  [] \<Rightarrow> None
                | (category, first_engine) # others \<Rightarrow> Some (UseSingle first_engine))))"

definition query :: "llama_services \<Rightarrow> multi_index_engine \<Rightarrow> string \<Rightarrow> string \<Rightarrow> exn + query_result" where
  "query llama e question engine_type =
     (case select_engine e engine_type of
        None \<Rightarrow> Inr no_documents_result
      | Some chosen \<Rightarrow>
          (case engine_query llama chosen question of
             Inl err \<Rightarrow> Inl err
           | Inr r \<Rightarrow> Inr (format_response llama r)))"

text \<open>
  A category index is \<open>EMPTY\<close> while its entry in \<open>indexes\<close> is \<open>None\<close> and \<open>READY\<close> afterwards.
  The states of the engine are those reached from the new engine by successful
  \<open>add_documents\<close> calls (a call that raises changes nothing).
\<close>

definition ready_categories :: "multi_index_engine \<Rightarrow> string list" where
  "ready_categories e = map fst (filter (\<lambda>entry. snd entry \<noteq> None) (indexes e))"

inductive reachable :: "multi_index_engine \<Rightarrow> bool" where
  reachable_new: "reachable new_multi_index_engine"
| reachable_add: "reachable e \<Longrightarrow> add_documents e documents index_name = Inr e' \<Longrightarrow> reachable e'"

text \<open>
  Example documents, an answering service that echoes the first node's text, the nodes of a
  category's index, and the states after adding \<open>doc_a\<close> to \<open>audit\<close> and then \<open>doc_b\<close> to \<open>audit\<close>.
\<close>

definition doc_a :: llama_doc where
  "doc_a = \<lparr>content = ''Finding 1: access reviews overdue'', doc_metadata = Some [(''filename'', ''a.pdf'')]\<rparr>"

definition doc_b :: llama_doc where
  "doc_b = \<lparr>content = ''Finding 2: backups untested'', doc_metadata = Some [(''filename'', ''b.pdf'')]\<rparr>"

definition echo_services :: llama_services where
  "echo_services =
     \<lparr>engine_query = (\<lambda>eng q.
        case eng of
          UseSingle qe \<Rightarrow>
            (case engine_index qe of
               VectorStoreIndex [] \<Rightarrow> Inr \<lparr>response_text = ''Empty Response'', source_nodes = []\<rparr>
             | VectorStoreIndex (n # ns) \<Rightarrow> Inr \<lparr>response_text = node_text n, source_nodes = []\<rparr>)
        | UseRouter r \<Rightarrow> Inr \<lparr>response_text = ''routed'', source_nodes = []\<rparr>
        | UseSubQuestion s \<Rightarrow> Inr \<lparr>response_text = ''synthesised'', source_nodes = []\<rparr>),
      round4 = (\<lambda>x. x)\<rparr>"

definition category_nodes :: "multi_index_engine \<Rightarrow> string \<Rightarrow> text_node list" where
  "category_nodes e category =
     (case map_of (indexes e) category of
        Some (Some (VectorStoreIndex nodes)) \<Rightarrow> nodes
      | _ \<Rightarrow> [])"

definition engine_with_doc_a :: multi_index_engine where
  "engine_with_doc_a =
     \<lparr>indexes = [(''audit'', Some (VectorStoreIndex [make_node doc_a])), (''policy'', None),
                 (''financial'', None)],
      query_engines =
        [(''audit'', \<lparr>engine_index = VectorStoreIndex [make_node doc_a], similarity_top_k = 5,
                      response_mode = ''compact''\<rparr>)],
      router_engine = None,
      sub_question_engine = None\<rparr>"

definition engine_with_doc_b :: multi_index_engine where
  "engine_with_doc_b =
     \<lparr>indexes = [(''audit'', Some (VectorStoreIndex [make_node doc_b])), (''policy'', None),
                 (''financial'', None)],
      query_engines =
        [(''audit'', \<lparr>engine_index = VectorStoreIndex [make_node doc_b], similarity_top_k = 5,
                      response_mode = ''compact''\<rparr>)],
      router_engine = None,
      sub_question_engine = None\<rparr>"

section \<open>Answer cache (services/cache_service.py)\<close>

subsection \<open>Python values and their JSON form\<close>

text \<open>
  The payload handed to \<open>set\<close> is a Python \<open>dict\<close>. Python values are modelled as far as
  \<open>json.dumps\<close> tells them apart: \<open>None\<close>, booleans, integers, finite floats (by their value;
  NaN and the infinities are left out), strings, lists, tuples, dictionaries (their items in
  insertion order; keys that are strings, integers, booleans or \<open>None\<close>, or \<open>KOther\<close> for a
  hashable key of a type JSON has no name for, a tuple say; float keys are left out), and
  \<open>PObject\<close> for an object of any other class, given by its \<open>str()\<close>.

  The cache stores \<open>json.dumps(result, default=str)\<close> and reads it back with \<open>json.loads\<close>.
  Both are modelled on the JSON value the stored text denotes (printing a JSON value and
  parsing the text back is the \<open>json\<close> library's own round trip): \<open>json_dumps\<close> is the
  conversion of a Python value into a JSON value, with the coercions of Python's encoder
  (a tuple becomes an array, a key becomes its string, an object of another class becomes
  the string \<open>default=str\<close> makes of it, a key of another type raises \<open>TypeError\<close>), and
  \<open>json_loads\<close> is the conversion back (an array becomes a list, an object a dictionary with
  string keys, a repeated member name keeping its last value).
\<close>

datatype pykey = KStr string | KInt int | KBool bool | KNone | KOther string

datatype pyval =
  PNone | PBool bool | PInt int | PFloat real | PStr string
| PList "pyval list" | PTuple "pyval list" | PDict "(pykey \<times> pyval) list" | PObject string

datatype json =
  JNull | JBool bool | JInt int | JFloat real | JString string
| JArray "json list" | JObject "(string \<times> json) list"

text \<open>Python's \<open>str\<close> of an integer: its decimal digits.\<close>

fun str_nat :: "nat \<Rightarrow> string" where
  "str_nat n = (if n < 10 then [char_of (48 + n)] else str_nat (n div 10) @ [char_of (48 + n mod 10)])"

definition str_int :: "int \<Rightarrow> string" where
  "str_int i = (if i < 0 then CHR ''-'' # str_nat (nat (- i)) else str_nat (nat i))"

text \<open>The results of a sequence of conversions: the first exception, or all the values.\<close>

fun collect :: "('e + 'a) list \<Rightarrow> 'e + 'a list" where
  "collect [] = Inr []"
| "collect (r # rs) =
     (case r of
        Inl e \<Rightarrow> Inl e
      | Inr v \<Rightarrow> (case collect rs of Inl e \<Rightarrow> Inl e | Inr vs \<Rightarrow> Inr (v # vs)))"

definition json_key :: "pykey \<Rightarrow> exn + string" where
  "json_key k =
     (case k of
        KStr s \<Rightarrow> Inr s
      | KInt i \<Rightarrow> Inr (str_int i)
      | KBool b \<Rightarrow> Inr (if b then ''true'' else ''false'')
      | KNone \<Rightarrow> Inr ''null''
      | KOther s \<Rightarrow> Inl (TypeError ''keys must be str, int, float, bool or None''))"

fun json_dumps :: "pyval \<Rightarrow> exn + json" where
  "json_dumps PNone = Inr JNull"
| "json_dumps (PBool b) = Inr (JBool b)"
| "json_dumps (PInt i) = Inr (JInt i)"
| "json_dumps (PFloat x) = Inr (JFloat x)"
| "json_dumps (PStr s) = Inr (JString s)"
| "json_dumps (PList xs) =
     (case collect (map json_dumps xs) of Inl e \<Rightarrow> Inl e | Inr js \<Rightarrow> Inr (JArray js))"
| "json_dumps (PTuple xs) =
     (case collect (map json_dumps xs) of Inl e \<Rightarrow> Inl e | Inr js \<Rightarrow> Inr (JArray js))"
| "json_dumps (PDict items) =
     (case collect (map (\<lambda>item.
              case json_key (fst item) of
                Inl e \<Rightarrow> Inl e
              | Inr k \<Rightarrow> (case json_dumps (snd item) of Inl e \<Rightarrow> Inl e | Inr j \<Rightarrow> Inr (k, j)))
            items) of
        Inl e \<Rightarrow> Inl e
      | Inr members \<Rightarrow> Inr (JObject members))"
| "json_dumps (PObject s) = Inr (JString s)"

fun json_loads :: "json \<Rightarrow> pyval" where
  "json_loads JNull = PNone"
| "json_loads (JBool b) = PBool b"
| "json_loads (JInt i) = PInt i"
| "json_loads (JFloat x) = PFloat x"
| "json_loads (JString s) = PStr s"
| "json_loads (JArray js) = PList (map json_loads js)"
| "json_loads (JObject members) =
     PDict (foldl (\<lambda>d member. dict_set (KStr (fst member)) (json_loads (snd member)) d) [] members)"

text \<open>
  The values JSON represents faithfully: no tuple, no object of another class, and in every
  dictionary only string keys (pairwise different, as the keys of a dictionary are).
\<close>

fun is_str_key :: "pykey \<Rightarrow> bool" where
  "is_str_key (KStr s) = True"
| "is_str_key k = False"

fun json_native :: "pyval \<Rightarrow> bool" where
  "json_native PNone = True"
| "json_native (PBool b) = True"
| "json_native (PInt i) = True"
| "json_native (PFloat x) = True"
| "json_native (PStr s) = True"
| "json_native (PList xs) = list_all json_native xs"
| "json_native (PTuple xs) = False"
| "json_native (PDict items) =
     (list_all (\<lambda>item. is_str_key (fst item) \<and> json_native (snd item)) items
      \<and> distinct (map fst items))"
| "json_native (PObject s) = False"


declare str_nat.simps [simp del]

subsection \<open>The Redis store\<close>

text \<open>
  The server maps a key to a value and its expiry time; time is counted in seconds. \<open>GET\<close>
  and \<open>KEYS\<close> see only entries that have not expired, \<open>SETEX\<close> stores a value with a time to
  live, \<open>DEL\<close> removes keys. Once the service is connected the server is taken to answer
  every command (a failing command lands in the \<open>except\<close> branch of the method: \<open>get\<close>
  returns \<open>None\<close>, \<open>set\<close> and \<open>clear\<close> do nothing).
\<close>

type_synonym redis = "string \<rightharpoonup> json \<times> nat"

definition redis_get :: "redis \<Rightarrow> nat \<Rightarrow> string \<Rightarrow> json option" where
  "redis_get r now key =
     (case r key of
        None \<Rightarrow> None
      | Some (v, expires) \<Rightarrow> if now < expires then Some v else None)"

definition redis_setex :: "redis \<Rightarrow> nat \<Rightarrow> string \<Rightarrow> nat \<Rightarrow> json \<Rightarrow> redis" where
  "redis_setex r now key seconds v = r(key \<mapsto> (v, now + seconds))"

definition redis_keys :: "redis \<Rightarrow> nat \<Rightarrow> string \<Rightarrow> string set" where
  "redis_keys r now prefix = {key. redis_get r now key \<noteq> None \<and> take (length prefix) key = prefix}"

definition redis_delete :: "redis \<Rightarrow> string set \<Rightarrow> redis" where
  "redis_delete r keys = (\<lambda>key. if key \<in> keys then None else r key)"

subsection \<open>The cache service\<close>

record cache_service =
  enabled :: bool
  client :: redis
  ttl :: nat

text \<open>
  The constructor connects and pings; \<open>server\<close> is the reachable server's content, or \<open>None\<close>
  when the connection fails, which leaves the cache disabled.
\<close>

definition new_cache_service :: "settings \<Rightarrow> redis option \<Rightarrow> cache_service" where
  "new_cache_service st server =
     (case server of
        None \<Rightarrow> \<lparr>enabled = False, client = Map.empty, ttl = cache_ttl_seconds st\<rparr>
      | Some r \<Rightarrow> \<lparr>enabled = True, client = r, ttl = cache_ttl_seconds st\<rparr>)"

text \<open>
  \<open>str.lower()\<close> and \<open>str.strip()\<close> on code points below 256: the upper-case letters are
  A to Z and the Latin-1 letters 192 to 222 except the multiplication sign 215; white space
  is 9 to 13, 28 to 32, 133 and 160.
\<close>

definition py_lower_char :: "char \<Rightarrow> char" where
  "py_lower_char c =
     (let n = (of_char c :: nat) in
      if (65 \<le> n \<and> n \<le> 90) \<or> (192 \<le> n \<and> n \<le> 222 \<and> n \<noteq> 215) then char_of (n + 32) else c)"

definition py_lower :: "string \<Rightarrow> string" where
  "py_lower s = map py_lower_char s"

definition py_isspace :: "char \<Rightarrow> bool" where
  "py_isspace c =
     (let n = (of_char c :: nat) in (9 \<le> n \<and> n \<le> 13) \<or> (28 \<le> n \<and> n \<le> 32) \<or> n = 133 \<or> n = 160)"

definition py_strip :: "string \<Rightarrow> string" where
  "py_strip s = rev (dropWhile py_isspace (rev (dropWhile py_isspace s)))"

text \<open>
  \<open>_make_key\<close>. The SHA-256 hex digest (of the UTF-8 encoding of its argument) is a library
  function, a parameter \<open>sha256_hex\<close> of the model.
\<close>

definition make_key :: "(string \<Rightarrow> string) \<Rightarrow> string \<Rightarrow> string" where
  "make_key sha256_hex question =
     (let normalised = py_strip (py_lower question);
          question_hash = take 16 (sha256_hex normalised)
      in ''rag_cache:'' @ question_hash)"

definition cache_get :: "(string \<Rightarrow> string) \<Rightarrow> cache_service \<Rightarrow> nat \<Rightarrow> string \<Rightarrow> pyval option" where
  "cache_get sha256_hex c now question =
     (if \<not> enabled c then None
      else
        (case redis_get (client c) now (make_key sha256_hex question) of
           Some cached \<Rightarrow> Some (json_loads cached)
         | None \<Rightarrow> None))"

definition cache_set ::
  "(string \<Rightarrow> string) \<Rightarrow> cache_service \<Rightarrow> nat \<Rightarrow> string \<Rightarrow> pyval \<Rightarrow> cache_service" where
  "cache_set sha256_hex c now question result =
     (if \<not> enabled c then c
      else
        (case json_dumps result of
           Inl e \<Rightarrow> c
         | Inr text \<Rightarrow>
             c\<lparr>client := redis_setex (client c) now (make_key sha256_hex question) (ttl c) text\<rparr>))"

definition cache_clear :: "cache_service \<Rightarrow> nat \<Rightarrow> cache_service" where
  "cache_clear c now =
     (if \<not> enabled c then c
      else
        (let keys = redis_keys (client c) now ''rag_cache:'' in
         if keys \<noteq> {} then c\<lparr>client := redis_delete (client c) keys\<rparr> else c))"

text \<open>An example: a connected, empty cache with the default time to live, and a stand-in digest.\<close>

definition example_cache :: cache_service where
  "example_cache = new_cache_service default_settings (Some Map.empty)"

definition toy_digest :: "string \<Rightarrow> string" where
  "toy_digest s = rev s"

definition tuple_payload :: pyval where
  "tuple_payload = PDict [(KStr ''answer'', PStr ''see pages''), (KStr ''pages'', PTuple [PInt 1, PInt 2])]"

definition native_payload :: pyval where
  "native_payload =
     PDict [(KStr ''answer'', PStr ''Three findings are open.''),
            (KStr ''sources'', PList [PDict [(KStr ''source'', PStr ''a.pdf''), (KStr ''page'', PInt 3),
                                             (KStr ''relevance_score'', PNone)]]),
            (KStr ''processing_time_ms'', PFloat 12.5),
            (KStr ''from_cache'', PBool False)]"

section \<open>Access filter and vector search\<close>

text \<open>
  \<open>build_access_filter\<close> (security/access_control.py) returns a Qdrant filter: the empty
  dictionary for a user with \<open>ALL\<close>, and otherwise one \<open>must\<close> condition that the point's
  \<open>access_group\<close> matches any of the user's groups. \<open>filter_accepts\<close> is Qdrant's reading
  of such a filter.
\<close>

datatype field_condition = FieldCondition string "string list"

record qdrant_filter =
  must :: "field_condition list"

definition build_access_filter :: "user \<Rightarrow> qdrant_filter" where
  "build_access_filter u =
     (if ''ALL'' \<in> set (user_access_groups u) then \<lparr>must = []\<rparr>
      else \<lparr>must = [FieldCondition ''access_group'' (user_access_groups u)]\<rparr>)"

fun condition_holds :: "document \<Rightarrow> field_condition \<Rightarrow> bool" where
  "condition_holds d (FieldCondition key any_of) =
     (case md_get d key of None \<Rightarrow> False | Some v \<Rightarrow> v \<in> set any_of)"

definition filter_accepts :: "qdrant_filter \<Rightarrow> document \<Rightarrow> bool" where
  "filter_accepts f d = list_all (condition_holds d) (must f)"

text \<open>
  The retriever of \<open>DocumentProcessor.get_retriever\<close>
  (services/document_processor.py) is \<open>vector_store.as_retriever(search_kwargs={"k": ...})\<close>:
  its search arguments hold \<open>k\<close> and no filter. The vector store's search is external; its
  contract is: of the stored chunks in decreasing similarity to the question, those the
  filter accepts (all, without a filter), cut to the first \<open>k\<close>. The ranking (embedding and
  similarity) is a parameter.
\<close>

record search_kwargs =
  top_k :: int
  search_filter :: "qdrant_filter option"

definition get_retriever :: "settings \<Rightarrow> search_kwargs" where
  "get_retriever st = \<lparr>top_k = retrieval_top_k st, search_filter = None\<rparr>"

definition similarity_search :: "document list \<Rightarrow> search_kwargs \<Rightarrow> document list" where
  "similarity_search ranked kwargs =
     take (nat (top_k kwargs))
       (case search_filter kwargs of
          None \<Rightarrow> ranked
        | Some f \<Rightarrow> filter (filter_accepts f) ranked)"

type_synonym ranking = "string \<Rightarrow> document list \<Rightarrow> document list"

definition retriever_invoke :: "ranking \<Rightarrow> document list \<Rightarrow> search_kwargs \<Rightarrow> string \<Rightarrow> document list" where
  "retriever_invoke rank store kwargs question = similarity_search (rank question store) kwargs"

section \<open>The application (main.py)\<close>

datatype processing_status = PENDING | PROCESSING | COMPLETED | FAILED

record doc_info =
  document_id :: string
  filename :: string
  file_type :: string
  category :: string
  access_group :: string
  chunk_count :: nat
  status :: processing_status
  uploaded_at :: string

text \<open>
  The global state: the job and document registries, the chunks in the main vector store,
  the retriever made at start-up, the multi-index engine, the parent store of the
  \<open>ParentChildRetriever\<close> and the cache service (\<open>None\<close> before start-up).
\<close>

record app_state =
  processing_jobs :: "string \<rightharpoonup> processing_status"
  document_registry :: "(string \<times> doc_info) list"
  vector_store :: "document list"
  retriever :: search_kwargs
  multi_engine :: multi_index_engine
  parent_child_store :: parent_store
  cache :: "cache_service option"

text \<open>
  \<open>lifespan\<close>: the services as they are constructed at start-up (\<open>stored\<close> are the chunks
  already in the collection, \<open>server\<close> the Redis server if it can be reached).
\<close>

definition lifespan :: "settings \<Rightarrow> document list \<Rightarrow> redis option \<Rightarrow> app_state" where
  "lifespan st stored server =
     \<lparr>processing_jobs = Map.empty,
      document_registry = [],
      vector_store = stored,
      retriever = get_retriever st,
      multi_engine = new_multi_index_engine,
      parent_child_store = Map.empty,
      cache = Some (new_cache_service st server)\<rparr>"

text \<open>
  What ingestion takes from outside: the loader (\<open>load_document\<close>, which may raise), the text
  splitter, the extension of a file name (\<open>os.path.splitext(filename)[1].lstrip(".")\<close>) and
  the time stamp.
\<close>

record ingestion_env =
  load_document :: "string \<Rightarrow> exn + document list"
  split_documents :: "document list \<Rightarrow> document list"
  file_ext :: "string \<Rightarrow> string"
  timestamp :: string

text \<open>
  \<open>DocumentProcessor.ingest_file\<close>, on the chunks of the vector store: the chunk count and
  the store afterwards.
\<close>

definition ingest_file :: "ingestion_env \<Rightarrow> document list \<Rightarrow> string \<Rightarrow> exn + nat \<times> document list" where
  "ingest_file env store file_path =
     (case load_document env file_path of
        Inl e \<Rightarrow> Inl e
      | Inr documents \<Rightarrow>
          (let chunks = split_documents env documents in
           Inr (length chunks, if chunks \<noteq> [] then store @ chunks else store)))"

definition make_llama_doc :: "string \<Rightarrow> string \<Rightarrow> string \<Rightarrow> document \<Rightarrow> llama_doc" where
  "make_llama_doc fname cat grp doc =
     \<lparr>content = page_content doc,
      doc_metadata =
        Some (dict_set ''access_group'' grp
               (dict_set ''category'' cat (dict_set ''filename'' fname (metadata doc))))\<rparr>"

text \<open>
  \<open>_process_document_background\<close>. Every step is inside one \<open>try\<close>; an exception marks the job
  \<open>FAILED\<close> and keeps what was done before it.
\<close>

definition process_document_background ::
  "ingestion_env \<Rightarrow> app_state \<Rightarrow> string \<Rightarrow> string \<Rightarrow> string \<Rightarrow> string \<Rightarrow> string \<Rightarrow> app_state" where
  "process_document_background env app job_id file_path fname cat grp =
     (let s1 = app\<lparr>processing_jobs := (processing_jobs app)(job_id \<mapsto> PROCESSING)\<rparr> in
      case ingest_file env (vector_store s1) file_path of
        Inl e \<Rightarrow> s1\<lparr>processing_jobs := (processing_jobs s1)(job_id \<mapsto> FAILED)\<rparr>
      | Inr (n_chunks, store') \<Rightarrow>
          (let s2 = s1\<lparr>vector_store := store'\<rparr> in
           case load_document env file_path of
             Inl e \<Rightarrow> s2\<lparr>processing_jobs := (processing_jobs s2)(job_id \<mapsto> FAILED)\<rparr>
           | Inr documents \<Rightarrow>
               (let llama_docs = map (make_llama_doc fname cat grp) documents in
                case (if cat \<in> {''audit'', ''policy'', ''financial''}
                      then add_documents (multi_engine s2) llama_docs cat
                      else Inr (multi_engine s2)) of
                  Inl e \<Rightarrow> s2\<lparr>processing_jobs := (processing_jobs s2)(job_id \<mapsto> FAILED)\<rparr>
                | Inr engine' \<Rightarrow>
                    s2\<lparr>multi_engine := engine',
                       document_registry :=
                         dict_set job_id
                           \<lparr>document_id = job_id, filename = fname, file_type = file_ext env fname,
                            category = cat, access_group = grp, chunk_count = n_chunks,
                            status = COMPLETED, uploaded_at = timestamp env\<rparr>
                           (document_registry s2),
                       processing_jobs := (processing_jobs s2)(job_id \<mapsto> COMPLETED)\<rparr>)))"

text \<open>
  \<open>delete_document\<close>, at time \<open>now\<close>: the response message and the state afterwards, or the
  HTTP error raised (the state is then unchanged).
  \<^verbatim>\<open>
    user = get_current_user(request)
    if "ALL" not in user.get("access_groups", []):
        raise HTTPException(status_code=403, detail="Admin role required to delete documents")
    if document_id not in document_registry:
        raise HTTPException(status_code=404, detail="Document not found")
    doc_info = document_registry.pop(document_id)
    # Clear cache since the document set changed
    if cache_service:
        cache_service.clear()
    return {"message": f"Document {doc_info['filename']} deleted", "document_id": document_id}
  \<close>
\<close>

definition delete_document ::
  "app_state \<Rightarrow> nat \<Rightarrow> string \<Rightarrow> request \<Rightarrow> http_exception + (string \<times> string) \<times> app_state" where
  "delete_document app now doc_id req =
     (case get_current_user req of
        Inl e \<Rightarrow> Inl e
      | Inr u \<Rightarrow>
          if ''ALL'' \<notin> set (user_access_groups u) then
            Inl (HTTPException 403 ''Admin role required to delete documents'')
          else
            (case map_of (document_registry app) doc_id of
               None \<Rightarrow> Inl (HTTPException 404 ''Document not found'')
             | Some info \<Rightarrow>
                 Inr ((''Document '' @ filename info @ '' deleted'', doc_id),
                      app\<lparr>document_registry :=
                            filter (\<lambda>entry. fst entry \<noteq> doc_id) (document_registry app),
                          cache := map_option (\<lambda>c. cache_clear c now) (cache app)\<rparr>)))"

text \<open>
  The documents \<open>LangChainOrchestrator.ask\<close> works with (services/langchain_orchestrator.py):
  \<open>retrieved_docs = self.retriever.invoke(question)\<close>, and the context built from them
  (their parents, or the retrieved chunks themselves when no parent resolves).
\<close>

definition ask_retrieved_docs :: "ranking \<Rightarrow> app_state \<Rightarrow> string \<Rightarrow> document list" where
  "ask_retrieved_docs rank app question =
     retriever_invoke rank (vector_store app) (retriever app) question"

definition ask_context_docs :: "ranking \<Rightarrow> app_state \<Rightarrow> string \<Rightarrow> document list" where
  "ask_context_docs rank app question =
     (let retrieved_docs = ask_retrieved_docs rank app question;
          context_docs = get_parents_for_children (parent_child_store app) retrieved_docs
      in if context_docs = [] then retrieved_docs else context_docs)"

text \<open>
  The retrieval of \<open>ask_question\<close> for the standard engine on a cache miss: the identity is
  resolved (an unknown role is refused), and the question is handed to the orchestrator.
  The resolved user takes no further part.
\<close>

definition ask_question_docs ::
  "ranking \<Rightarrow> app_state \<Rightarrow> request \<Rightarrow> string \<Rightarrow> http_exception + document list" where
  "ask_question_docs rank app req question =
     (case get_current_user req of
        Inl e \<Rightarrow> Inl e
      | Inr u \<Rightarrow> Inr (ask_context_docs rank app question))"

text \<open>The cache look-up of \<open>ask_question\<close>: \<open>if cache_service: cached = cache_service.get(question)\<close>.\<close>

definition app_cache_get :: "(string \<Rightarrow> string) \<Rightarrow> app_state \<Rightarrow> nat \<Rightarrow> string \<Rightarrow> pyval option" where
  "app_cache_get sha256_hex app now question =
     (case cache app of
        None \<Rightarrow> None
      | Some c \<Rightarrow> cache_get sha256_hex c now question)"

text \<open>
  Example inputs. One uploaded text file about the EMEA branch, loaded as one document
  and split into one chunk; requests of a viewer and of an administrator; a ranking that
  keeps the store's order.
\<close>

definition emea_chunk :: document where
  "emea_chunk =
     \<lparr>page_content = ''EMEA branch audit: 4 open findings'',
      metadata = [(''source'', ''data/uploads/job-1_emea.txt''), (''file_type'', ''txt'')]\<rparr>"

definition example_env :: ingestion_env where
  "example_env =
     \<lparr>load_document = (\<lambda>path. if path = ''data/uploads/job-1_emea.txt'' then Inr [emea_chunk]
                               else Inl (ExternalError ''File not found'')),
      split_documents = (\<lambda>documents. documents),
      file_ext = (\<lambda>fname. ''txt''),
      timestamp = ''2024-01-01T00:00:00Z''\<rparr>"

definition identity_ranking :: ranking where
  "identity_ranking question store = store"

definition viewer_request :: request where
  "viewer_request = \<lparr>headers = [''X-User-Role'' \<mapsto> ''viewer'']\<rparr>"


definition started_app :: app_state where
  "started_app = lifespan default_settings [] (Some Map.empty)"

definition upload_emea :: "app_state \<Rightarrow> app_state" where
  "upload_emea app =
     process_document_background example_env app ''job-1'' ''data/uploads/job-1_emea.txt''
       ''emea.txt'' ''audit'' ''EMEA_AUDIT''"

text \<open>A store that already holds chunks tagged with their access group.\<close>

definition tagged_emea_chunk :: document where
  "tagged_emea_chunk =
     \<lparr>page_content = ''Paris office: control gaps'', metadata = [(''access_group'', ''EMEA_AUDIT'')]\<rparr>"

definition tagged_global_chunk :: document where
  "tagged_global_chunk =
     \<lparr>page_content = ''Group audit charter'', metadata = [(''access_group'', ''GLOBAL_AUDIT'')]\<rparr>"

definition tagged_app :: app_state where
  "tagged_app = lifespan default_settings [tagged_emea_chunk, tagged_global_chunk] (Some Map.empty)"

text \<open>The started application with one cached answer, written at time 100.\<close>

definition cached_app :: app_state where
  "cached_app =
     started_app\<lparr>cache :=
       map_option (\<lambda>c. cache_set toy_digest c 100 ''What is open?'' native_payload)
         (cache started_app)\<rparr>"







chapter \<open>Properties\<close>

section \<open>Properties of parent resolution\<close>

lemma removeAll_filter_conv: "removeAll x xs = filter (\<lambda>y. y \<noteq> x) xs"
  by (induction xs) auto

lemma set_first_occurrences: "set (first_occurrences xs) = set xs"
  by (induction xs) auto

lemma distinct_first_occurrences: "distinct (first_occurrences xs)"
  by (induction xs) (auto simp: distinct_removeAll)

lemma get_parents_loop_spec:
  "get_parents_loop store cs seen acc =
     acc @ map (\<lambda>p. the (store p))
             (filter (\<lambda>p. p \<notin> seen) (first_occurrences (resolvable_ids store cs)))"
proof (induction cs arbitrary: seen acc)
  case Nil
  then show ?case by (simp add: resolvable_ids_def)
next
  case (Cons c cs)
  show ?case
  proof (cases "md_get c ''parent_id''")
    case None
    then show ?thesis using Cons.IH by (simp add: resolvable_ids_def)
  next
    case (Some p)
    show ?thesis
    proof (cases "p \<noteq> [] \<and> store p \<noteq> None")
      case False
      then show ?thesis using Some Cons.IH by (auto simp: resolvable_ids_def)
    next
      case True
      then obtain d where d: "store p = Some d" by auto
      have ids: "resolvable_ids store (c # cs) = p # resolvable_ids store cs"
        using Some True by (simp add: resolvable_ids_def)
      show ?thesis
      proof (cases "p \<in> seen")
        case True
        have "filter (\<lambda>q. q \<notin> seen) (removeAll p xs) = filter (\<lambda>q. q \<notin> seen) xs" for xs
          using True by (induction xs) auto
        then show ?thesis using Some True Cons.IH ids by simp
      next
        case False
        have "filter (\<lambda>q. q \<notin> seen) (removeAll p xs) = filter (\<lambda>q. q \<notin> insert p seen) xs" for xs
          by (induction xs) auto
        then show ?thesis using Some False \<open>p \<noteq> [] \<and> store p \<noteq> None\<close> d Cons.IH ids by simp
      qed
    qed
  qed
qed

lemma get_parents_for_children_spec:
  "get_parents_for_children store cs = resolve_parents_spec store cs"
  by (simp add: get_parents_for_children_def resolve_parents_spec_def get_parents_loop_spec)

lemma first_index_less_removeAll:
  assumes "sorted_wrt (\<lambda>a b. first_index xs a < first_index xs b) ys"
  shows "sorted_wrt (\<lambda>a b. first_index (x # xs) a < first_index (x # xs) b) (removeAll x ys)"
proof -
  have "sorted_wrt (\<lambda>a b. first_index xs a < first_index xs b) (removeAll x ys)"
    using assms by (simp add: removeAll_filter_conv sorted_wrt_filter)
  then show ?thesis
    by (rule sorted_wrt_mono_rel [rotated]) auto
qed

lemma first_occurrences_order:
  "sorted_wrt (\<lambda>a b. first_index xs a < first_index xs b) (first_occurrences xs)"
proof (induction xs)
  case Nil
  then show ?case by simp
next
  case (Cons x xs)
  have "\<forall>y \<in> set (removeAll x (first_occurrences xs)).
          first_index (x # xs) x < first_index (x # xs) y"
    by auto
  then show ?case
    using first_index_less_removeAll [OF Cons.IH, of x] by simp
qed

text \<open>
  C8. Resolving the parents of a sequence of children returns the stored parents of the
  resolvable parent ids, each id once, in the order of the ids' first occurrences among
  the children; a child without a \<open>parent_id\<close> (or with an empty one) and a child whose
  \<open>parent_id\<close> is no key of the store contribute nothing, and the function is total
  (nothing is raised). Two children of one stored parent resolve to that single parent.
\<close>

theorem resolve_parents_first_occurrence_order:
  "get_parents_for_children store child_docs = resolve_parents_spec store child_docs
   \<and> resolve_parents_spec store child_docs =
       map (\<lambda>parent_id. the (store parent_id))
         (first_occurrences (resolvable_ids store child_docs))
   \<and> distinct (first_occurrences (resolvable_ids store child_docs))
   \<and> set (first_occurrences (resolvable_ids store child_docs)) =
       {parent_id \<in> set (child_parent_ids child_docs). parent_id \<noteq> [] \<and> store parent_id \<noteq> None}
   \<and> sorted_wrt (\<lambda>a b. first_index (resolvable_ids store child_docs) a
                         < first_index (resolvable_ids store child_docs) b)
       (first_occurrences (resolvable_ids store child_docs))
   \<and> (md_get c1 ''parent_id'' = Some p \<and> md_get c2 ''parent_id'' = Some p \<and> p \<noteq> []
        \<and> store p = Some parent
      \<longrightarrow> get_parents_for_children store [c1, c2] = [parent])"
proof -
  have "set (first_occurrences (resolvable_ids store child_docs)) =
       {parent_id \<in> set (child_parent_ids child_docs). parent_id \<noteq> [] \<and> store parent_id \<noteq> None}"
    by (auto simp: set_first_occurrences resolvable_ids_def)
  moreover have "md_get c1 ''parent_id'' = Some p \<and> md_get c2 ''parent_id'' = Some p \<and> p \<noteq> []
        \<and> store p = Some parent
      \<longrightarrow> get_parents_for_children store [c1, c2] = [parent]"
    by (simp add: get_parents_for_children_def)
  ultimately show ?thesis
    using get_parents_for_children_spec [of store child_docs]
      distinct_first_occurrences [of "resolvable_ids store child_docs"]
      first_occurrences_order [of "resolvable_ids store child_docs"]
    by (simp add: resolve_parents_spec_def)
qed

theorem resolve_parents_first_occurrence_order_witness:
  "get_parents_for_children example_parent_store example_children =
     [\<lparr>page_content = ''second parent'', metadata = [(''parent_id'', ''p2'')]\<rparr>,
      \<lparr>page_content = ''first parent'', metadata = [(''parent_id'', ''p1'')]\<rparr>]
   \<and> get_parents_for_children example_parent_store
         [\<lparr>page_content = ''c7'', metadata = [(''parent_id'', ''p2'')]\<rparr>,
          \<lparr>page_content = ''c12'', metadata = [(''parent_id'', ''p2'')]\<rparr>] =
     [\<lparr>page_content = ''second parent'', metadata = [(''parent_id'', ''p2'')]\<rparr>]"
  using resolve_parents_first_occurrence_order
    [of example_parent_store example_children
        "\<lparr>page_content = ''c7'', metadata = [(''parent_id'', ''p2'')]\<rparr>" "''p2''"
        "\<lparr>page_content = ''c12'', metadata = [(''parent_id'', ''p2'')]\<rparr>"
        "\<lparr>page_content = ''second parent'', metadata = [(''parent_id'', ''p2'')]\<rparr>"]
  by (simp add: resolve_parents_spec_def resolvable_ids_def example_parent_store_def
      example_children_def md_get_def)

section \<open>Properties of identity resolution\<close>

text \<open>
  C10. Identity resolution fails exactly when the \<open>X-User-Role\<close> header is present with a
  value that is not a known role, and the failure is an HTTP 403; a request without the
  header is resolved to the \<open>admin\<close> role, whose access groups contain \<open>ALL\<close>.
\<close>

theorem get_current_user_403_iff_unknown_role:
  "((\<exists>detail. get_current_user req = Inl (HTTPException 403 detail))
      \<longleftrightarrow> (\<exists>r. headers req ''X-User-Role'' = Some r \<and> r \<notin> known_roles))
   \<and> (\<forall>e. get_current_user req = Inl e \<longrightarrow> (\<exists>detail. e = HTTPException 403 detail))
   \<and> (headers req ''X-User-Role'' = None \<longrightarrow>
        (\<exists>u. get_current_user req = Inr u \<and> role u = ''admin''
             \<and> ''ALL'' \<in> set (user_access_groups u)))"
proof -
  have known: "map_of USER_ROLES r = None \<longleftrightarrow> r \<notin> known_roles" for r
    by (simp add: known_roles_def map_of_eq_None_iff)
  have admin: "''admin'' \<in> known_roles"
    by (simp add: known_roles_def USER_ROLES_def)
  show ?thesis
  proof (cases "headers req ''X-User-Role''")
    case None
    then show ?thesis
      by (simp add: get_current_user_def USER_ROLES_def)
  next
    case (Some r)
    then show ?thesis
      using known [of r]
      by (cases "map_of USER_ROLES r") (auto simp: get_current_user_def)
  qed
qed

theorem get_current_user_403_iff_unknown_role_witness:
  "(\<exists>detail. get_current_user \<lparr>headers = [''X-User-Role'' \<mapsto> ''auditor'']\<rparr>
       = Inl (HTTPException 403 detail))
   \<and> (\<exists>u. get_current_user \<lparr>headers = Map.empty\<rparr> = Inr u \<and> role u = ''admin''
          \<and> ''ALL'' \<in> set (user_access_groups u))"
  using get_current_user_403_iff_unknown_role [of "\<lparr>headers = [''X-User-Role'' \<mapsto> ''auditor'']\<rparr>"]
    get_current_user_403_iff_unknown_role [of "\<lparr>headers = Map.empty\<rparr>"]
  by (simp add: known_roles_def USER_ROLES_def)

section \<open>Properties of the retrieval pipeline\<close>

lemma retry_attempts_all_fail:
  "(\<forall>i < n. \<exists>e. call (t + i) = Inl e) \<Longrightarrow> retry_attempts n call t = (Inl RetryError, t + n)"
proof (induction n arbitrary: t)
  case 0
  then show ?case by simp
next
  case (Suc n)
  from Suc.prems obtain e where e: "call t = Inl e" by force
  have "\<forall>i < n. \<exists>e. call (Suc t + i) = Inl e"
    using Suc.prems by (metis Suc_less_eq add_Suc_shift)
  then show ?case using Suc.IH [of "Suc t"] e by simp
qed

lemma retry_attempts_first_success:
  "i < n \<Longrightarrow> call (t + i) = Inr v \<Longrightarrow> (\<forall>j < i. \<exists>e. call (t + j) = Inl e)
     \<Longrightarrow> retry_attempts n call t = (Inr v, Suc (t + i))"
proof (induction n arbitrary: t i)
  case 0
  then show ?case by simp
next
  case (Suc n)
  show ?case
  proof (cases i)
    case 0
    then show ?thesis using Suc.prems by simp
  next
    case (Suc k)
    from Suc.prems(3) Suc obtain e where e: "call t = Inl e" by force
    have "\<forall>j < k. \<exists>e. call (Suc t + j) = Inl e"
      using Suc.prems(3) Suc by (metis Suc_less_eq add_Suc_shift)
    moreover have "call (Suc t + k) = Inr v" using Suc.prems(2) Suc by simp
    moreover have "k < n" using Suc.prems(1) Suc by simp
    ultimately show ?thesis using Suc.IH [of k "Suc t"] e Suc by simp
  qed
qed

lemma retrieve_steps_2_3_returns: "\<exists>docs'. retrieve_steps_2_3 env svc st q rr pc docs t = Inr docs'"
  by (simp add: retrieve_steps_2_3_def Let_def)

lemma retrieve_by_candidate_stage:
  "retrieve env svc st q rr mq pc =
     (case candidate_stage env q mq of
        None \<Rightarrow> Inr []
      | Some (docs, t) \<Rightarrow> retrieve_steps_2_3 env svc st q rr pc docs t)"
  by (simp add: retrieve_def candidate_stage_def split: prod.splits sum.splits)

text \<open>
  C6. \<open>retrieve\<close> always returns a list, never an exception. When the three attempts of
  the retrieval with retry (multi-query or direct) all fail, one direct search on the
  original question is made (the fourth external call); its documents are the candidates
  of the later steps, and when it fails too the result is the empty list. An attempt that
  succeeds ends the retrying and supplies the candidates.
\<close>

theorem retrieve_degrades_to_empty:
  "(\<exists>docs. retrieve env svc st q rr mq pc = Inr docs)
   \<and> ((\<forall>i < 3. \<exists>e. retrieve_attempt env q mq i = Inl e) \<and> base_invoke env q 3 = Inr fallback_docs
        \<longrightarrow> retrieve env svc st q rr mq pc = retrieve_steps_2_3 env svc st q rr pc fallback_docs 4)
   \<and> ((\<forall>i < 3. \<exists>e. retrieve_attempt env q mq i = Inl e) \<and> (\<exists>e. base_invoke env q 3 = Inl e)
        \<longrightarrow> retrieve env svc st q rr mq pc = Inr [])
   \<and> (i < 3 \<and> retrieve_attempt env q mq i = Inr found
        \<and> (\<forall>j < i. \<exists>e. retrieve_attempt env q mq j = Inl e)
        \<longrightarrow> retrieve env svc st q rr mq pc = retrieve_steps_2_3 env svc st q rr pc found (Suc i))"
proof -
  have total: "\<exists>docs. retrieve env svc st q rr mq pc = Inr docs"
    using retrieve_steps_2_3_returns
    by (auto simp: retrieve_by_candidate_stage split: option.splits)
  have fail: "retrieve_with_retry env q mq 0 = (Inl RetryError, 3)"
    if "\<forall>i < 3. \<exists>e. retrieve_attempt env q mq i = Inl e"
    using retry_attempts_all_fail [of 3 "retrieve_attempt env q mq" 0] that
    by (simp add: retrieve_with_retry_def)
  have ok: "retrieve_with_retry env q mq 0 = (Inr found, Suc i)"
    if "i < 3" "retrieve_attempt env q mq i = Inr found"
      "\<forall>j < i. \<exists>e. retrieve_attempt env q mq j = Inl e"
    using retry_attempts_first_success [of i 3 "retrieve_attempt env q mq" 0 found] that
    by (simp add: retrieve_with_retry_def)
  show ?thesis
    using total fail ok by (auto simp: retrieve_def numeral_eq_Suc)
qed

theorem retrieve_degrades_to_empty_witness:
  "retrieve down_services example_service default_settings ''what changed?'' True True True = Inr []
   \<and> retrieve flaky_services example_service_no_parents default_settings ''what changed?''
       False True False = Inr example_children"
proof -
  have "\<forall>i < 3. \<exists>e. retrieve_attempt down_services ''what changed?'' True i = Inl e"
    by (simp add: retrieve_attempt_def down_services_def)
  moreover have "\<exists>e. base_invoke down_services ''what changed?'' 3 = Inl e"
    by (simp add: down_services_def)
  moreover have "\<forall>i < 3. \<exists>e. retrieve_attempt flaky_services ''what changed?'' True i = Inl e"
    by (simp add: retrieve_attempt_def flaky_services_def)
  moreover have "base_invoke flaky_services ''what changed?'' 3 = Inr example_children"
    by (simp add: flaky_services_def)
  ultimately show ?thesis
    using retrieve_degrades_to_empty
        [of down_services example_service default_settings "''what changed?''" True True True]
      retrieve_degrades_to_empty
        [of flaky_services example_service_no_parents default_settings "''what changed?''"
            False True False example_children]
    by (simp add: retrieve_steps_2_3_def)
qed

lemma py_slice_to_nonempty: "xs \<noteq> [] \<Longrightarrow> 1 \<le> n \<Longrightarrow> py_slice_to xs n \<noteq> []"
  by (cases xs) (auto simp: py_slice_to_def take_Cons')

text \<open>
  C7, as the code has it. When the candidates of step 1 are non-empty, re-ranking is
  requested, a re-ranker is configured and its call raises, \<open>retrieve\<close> raises nothing: step
  2 falls back to the candidates in their order, cut to \<open>rerank_top_n\<close> by the slice
  \<open>docs[:rerank_top_n]\<close>. That list is the result when parent expansion is off or resolves no
  parent; otherwise the result is the list of resolved parents of the cut candidates. For
  \<open>rerank_top_n\<close> of at least 1 the result is not empty.
\<close>

theorem rerank_failure_falls_back:
  assumes "candidate_stage env q mq = Some (docs, t)"
    and "docs \<noteq> []"
    and "reranker svc \<noteq> None"
    and "rerank_invoke env q t = Inl e"
  shows "retrieve env svc st q True mq pc =
           Inr (let truncated = py_slice_to docs (rerank_top_n st);
                    parents = (case parent_child svc of
                                 None \<Rightarrow> []
                               | Some store \<Rightarrow> get_parents_for_children store truncated)
                in if pc \<and> parents \<noteq> [] then parents else truncated)
         \<and> (1 \<le> rerank_top_n st \<longrightarrow> retrieve env svc st q True mq pc \<noteq> Inr [])"
proof -
  have "py_slice_to docs (rerank_top_n st) \<noteq> []" if "1 \<le> rerank_top_n st"
    using assms(2) that by (rule py_slice_to_nonempty)
  then show ?thesis
    using assms
    by (auto simp: retrieve_by_candidate_stage retrieve_steps_2_3_def Let_def
        split: option.splits)
qed

theorem rerank_failure_falls_back_witness:
  "retrieve flaky_services example_service_no_parents default_settings ''what changed?''
       True True True = Inr (take 5 example_children)
   \<and> retrieve flaky_services example_service default_settings ''what changed?''
       True True True =
     Inr [\<lparr>page_content = ''second parent'', metadata = [(''parent_id'', ''p2'')]\<rparr>,
          \<lparr>page_content = ''first parent'', metadata = [(''parent_id'', ''p1'')]\<rparr>]"
proof -
  have stage: "candidate_stage flaky_services ''what changed?'' True = Some (example_children, 4)"
    by (simp add: candidate_stage_def retrieve_with_retry_def retrieve_attempt_def
        flaky_services_def numeral_eq_Suc)
  have nonempty: "example_children \<noteq> []"
    by (simp add: example_children_def)
  have rr: "reranker example_service \<noteq> None" "reranker example_service_no_parents \<noteq> None"
    by (simp_all add: example_service_def example_service_no_parents_def)
  have fails: "rerank_invoke flaky_services ''what changed?'' 4
                 = Inl (ExternalError ''reranker unavailable'')"
    by (simp add: flaky_services_def)
  have parents: "get_parents_for_children example_parent_store example_children =
     [\<lparr>page_content = ''second parent'', metadata = [(''parent_id'', ''p2'')]\<rparr>,
      \<lparr>page_content = ''first parent'', metadata = [(''parent_id'', ''p1'')]\<rparr>]"
    by (simp add: get_parents_for_children_def example_parent_store_def example_children_def
        md_get_def)
  have len: "length example_children = 5"
    by (simp add: example_children_def)
  show ?thesis
    using rerank_failure_falls_back [OF stage nonempty rr(2) fails, of default_settings True]
      rerank_failure_falls_back [OF stage nonempty rr(1) fails, of default_settings True]
      parents len
    by (simp add: py_slice_to_def default_settings_def example_service_def
        example_service_no_parents_def)
qed

text \<open>
  The claim as stated fails: with the default settings and a populated parent store, the
  result after a re-ranker failure is the list of resolved parents, not the cut candidates.
\<close>

theorem rerank_fallback_counterexample:
  "candidate_stage flaky_services ''what changed?'' True = Some (example_children, 4)
   \<and> example_children \<noteq> []
   \<and> reranker example_service \<noteq> None
   \<and> rerank_invoke flaky_services ''what changed?'' 4 = Inl (ExternalError ''reranker unavailable'')
   \<and> retrieve flaky_services example_service default_settings ''what changed?'' True True True
       \<noteq> Inr (py_slice_to example_children (rerank_top_n default_settings))"
  by (simp add: candidate_stage_def retrieve_def retrieve_steps_2_3_def retrieve_with_retry_def
      retrieve_attempt_def flaky_services_def numeral_eq_Suc example_service_def
      example_children_def default_settings_def py_slice_to_def get_parents_for_children_def
      example_parent_store_def md_get_def)

section \<open>Properties of the multi-index engine\<close>

lemma dict_keys_dict_set:
  "dict_keys (dict_set k v d) = (if k \<in> set (dict_keys d) then dict_keys d else dict_keys d @ [k])"
  by (induction d) (force simp: dict_keys_def)+

lemma map_of_dict_set: "map_of (dict_set k v d) k' = (if k' = k then Some v else map_of d k')"
  by (induction d) auto

lemma length_dict_set:
  "length (dict_set k v d) = (if k \<in> set (dict_keys d) then length d else Suc (length d))"
  by (induction d) (force simp: dict_keys_def)+

lemma rebuild_engines_fields:
  "indexes (rebuild_engines e) = indexes e" "query_engines (rebuild_engines e) = query_engines e"
  by (simp_all add: rebuild_engines_def Let_def)

lemma rebuild_engines_router:
  "router_engine (rebuild_engines e) =
     (if 2 \<le> length (query_engines e) then Some (RouterQueryEngine (map make_tool (query_engines e)))
      else router_engine e)"
  "sub_question_engine (rebuild_engines e) =
     (if 2 \<le> length (query_engines e) then Some (SubQuestionQueryEngine (map make_tool (query_engines e)))
      else sub_question_engine e)"
  by (simp_all add: rebuild_engines_def Let_def)

lemma add_documents_Inr:
  assumes "add_documents e documents index_name = Inr e'"
  shows "index_name \<in> set (dict_keys (indexes e))"
    and "indexes e' = dict_set index_name (Some (VectorStoreIndex (map make_node documents))) (indexes e)"
    and "query_engines e' =
           dict_set index_name
             \<lparr>engine_index = VectorStoreIndex (map make_node documents), similarity_top_k = 5,
              response_mode = ''compact''\<rparr> (query_engines e)"
    and "router_engine e' =
           (if 2 \<le> length (query_engines e') then Some (RouterQueryEngine (map make_tool (query_engines e')))
            else router_engine e)"
    and "sub_question_engine e' =
           (if 2 \<le> length (query_engines e') then Some (SubQuestionQueryEngine (map make_tool (query_engines e')))
            else sub_question_engine e)"
  using assms
  by (auto simp: add_documents_def Let_def rebuild_engines_fields rebuild_engines_router
      split: if_splits)

lemma reachable_invariant:
  assumes "reachable e"
  shows "dict_keys (indexes e) = [''audit'', ''policy'', ''financial'']
       \<and> distinct (dict_keys (query_engines e))
       \<and> (\<forall>n. n \<in> set (dict_keys (query_engines e)) \<longleftrightarrow> (\<exists>i. map_of (indexes e) n = Some (Some i)))
       \<and> (\<forall>n qe. map_of (query_engines e) n = Some qe \<longrightarrow>
              map_of (indexes e) n = Some (Some (engine_index qe)))
       \<and> router_engine e =
           (if 2 \<le> length (query_engines e) then Some (RouterQueryEngine (map make_tool (query_engines e)))
            else None)
       \<and> sub_question_engine e =
           (if 2 \<le> length (query_engines e) then Some (SubQuestionQueryEngine (map make_tool (query_engines e)))
            else None)"
  using assms
proof (induction rule: reachable.induct)
  case reachable_new
  then show ?case by (simp add: new_multi_index_engine_def dict_keys_def)
next
  case (reachable_add e documents index_name e')
  note a = add_documents_Inr [OF reachable_add.hyps(2)]
  note IH = reachable_add.IH
  have keys: "dict_keys (indexes e') = [''audit'', ''policy'', ''financial'']"
    using a(1) IH by (simp add: a(2) dict_keys_dict_set)
  have dist: "distinct (dict_keys (query_engines e'))"
    using IH by (simp add: a(3) dict_keys_dict_set)
  have mem: "\<forall>n. n \<in> set (dict_keys (query_engines e')) \<longleftrightarrow> (\<exists>i. map_of (indexes e') n = Some (Some i))"
    using IH by (auto simp: a(2) a(3) dict_keys_dict_set map_of_dict_set)
  have link: "\<forall>n qe. map_of (query_engines e') n = Some qe \<longrightarrow>
              map_of (indexes e') n = Some (Some (engine_index qe))"
    using IH by (auto simp: a(2) a(3) map_of_dict_set)
  have len: "length (query_engines e) \<le> length (query_engines e')"
    by (simp add: a(3) length_dict_set)
  have r: "router_engine e' =
           (if 2 \<le> length (query_engines e') then Some (RouterQueryEngine (map make_tool (query_engines e')))
            else None)"
    using IH len by (auto simp: a(4))
  have sq: "sub_question_engine e' =
           (if 2 \<le> length (query_engines e') then Some (SubQuestionQueryEngine (map make_tool (query_engines e')))
            else None)"
    using IH len by (auto simp: a(5))
  show ?case using keys dist mem link r sq by blast
qed

lemma ready_categories_set:
  assumes "distinct (dict_keys (indexes e))"
  shows "set (ready_categories e) = {n. \<exists>i. map_of (indexes e) n = Some (Some i)}"
  using assms
  unfolding ready_categories_def dict_keys_def
  by (induction "indexes e" arbitrary: e) (force simp: image_iff)+

lemma ready_count_eq:
  assumes "reachable e"
  shows "length (ready_categories e) = length (query_engines e)"
proof -
  note inv = reachable_invariant [OF assms]
  have d: "distinct (dict_keys (indexes e))" using inv by simp
  have "distinct (ready_categories e)"
    using d unfolding ready_categories_def dict_keys_def by (simp add: distinct_map_filter)
  moreover have "set (ready_categories e) = set (dict_keys (query_engines e))"
    using ready_categories_set [OF d] inv by auto
  moreover have "distinct (dict_keys (query_engines e))" using inv by simp
  ultimately have "length (ready_categories e) = length (dict_keys (query_engines e))"
    by (metis distinct_card)
  then show ?thesis by (simp add: dict_keys_def)
qed

text \<open>
  C4, as the code has it. In every state of the engine reached by \<open>add_documents\<close> calls:
  with no category \<open>READY\<close>, a query of either engine type returns the "No documents
  indexed yet." result with no sources, calling no engine (so nothing is raised); with
  exactly one category \<open>READY\<close>, the router and the sub-question engine do not exist and the
  query falls back to that category's own query engine, whose answer (or exception) is the
  answer of the query. The router and sub-question engines exist exactly from two \<open>READY\<close>
  categories on.
\<close>

theorem query_below_two_ready:
  assumes "reachable e"
  shows "(length (ready_categories e) = 0 \<longrightarrow>
            query llama e question engine_type = Inr no_documents_result)
       \<and> (length (ready_categories e) = 1 \<longrightarrow>
            (\<exists>category qe.
               ready_categories e = [category]
               \<and> query_engines e = [(category, qe)]
               \<and> map_of (indexes e) category = Some (Some (engine_index qe))
               \<and> select_engine e engine_type = Some (UseSingle qe)
               \<and> query llama e question engine_type =
                   (case engine_query llama (UseSingle qe) question of
                      Inl err \<Rightarrow> Inl err
                    | Inr r \<Rightarrow> Inr (format_response llama r))))
       \<and> (length (ready_categories e) < 2 \<longleftrightarrow> router_engine e = None)
       \<and> (length (ready_categories e) < 2 \<longleftrightarrow> sub_question_engine e = None)"
proof -
  note inv = reachable_invariant [OF assms]
  note cnt = ready_count_eq [OF assms]
  have none: "router_engine e = None" "sub_question_engine e = None"
    if "length (query_engines e) < 2"
    using inv that by auto
  have zero: "query llama e question engine_type = Inr no_documents_result"
    if "length (ready_categories e) = 0"
    using that cnt none by (simp add: query_def select_engine_def)
  have one: "\<exists>category qe.
               ready_categories e = [category]
               \<and> query_engines e = [(category, qe)]
               \<and> map_of (indexes e) category = Some (Some (engine_index qe))
               \<and> select_engine e engine_type = Some (UseSingle qe)
               \<and> query llama e question engine_type =
                   (case engine_query llama (UseSingle qe) question of
                      Inl err \<Rightarrow> Inl err
                    | Inr r \<Rightarrow> Inr (format_response llama r))"
    if h: "length (ready_categories e) = 1"
  proof -
    from h cnt obtain category qe where qes: "query_engines e = [(category, qe)]"
      by (cases "query_engines e") auto
    from h obtain c where rc: "ready_categories e = [c]"
      by (cases "ready_categories e") auto
    have "set (ready_categories e) = set (dict_keys (query_engines e))"
      using ready_categories_set [of e] inv by auto
    then have "c = category" using rc qes by (simp add: dict_keys_def)
    moreover have "map_of (indexes e) category = Some (Some (engine_index qe))"
      using inv qes by simp
    moreover have "select_engine e engine_type = Some (UseSingle qe)"
      using none qes by (simp add: select_engine_def)
    ultimately show ?thesis
      using rc qes by (simp add: query_def)
  qed
  have "length (ready_categories e) < 2 \<longleftrightarrow> router_engine e = None"
    "length (ready_categories e) < 2 \<longleftrightarrow> sub_question_engine e = None"
    using inv cnt by auto
  then show ?thesis using zero one by blast
qed

lemma reachable_engine_with_doc_a:
  "add_documents new_multi_index_engine [doc_a] ''audit'' = Inr engine_with_doc_a"
  by (simp add: add_documents_def new_multi_index_engine_def engine_with_doc_a_def
      dict_keys_def rebuild_engines_def Let_def)

theorem query_below_two_ready_witness:
  "query echo_services new_multi_index_engine ''What was found?'' ''router'' = Inr no_documents_result
   \<and> query echo_services engine_with_doc_a ''What was found?'' ''sub_question'' =
       Inr \<lparr>answer = ''Finding 1: access reviews overdue'', sources = []\<rparr>"
proof -
  have r0: "reachable new_multi_index_engine" by (rule reachable_new)
  have r1: "reachable engine_with_doc_a"
    using reachable_add [OF reachable_new reachable_engine_with_doc_a] .
  have c0: "length (ready_categories new_multi_index_engine) = 0"
    by (simp add: ready_categories_def new_multi_index_engine_def)
  have c1: "length (ready_categories engine_with_doc_a) = 1"
    by (simp add: ready_categories_def engine_with_doc_a_def)
  have q: "query_engines engine_with_doc_a =
     [(''audit'', \<lparr>engine_index = VectorStoreIndex [make_node doc_a], similarity_top_k = 5,
                      response_mode = ''compact''\<rparr>)]"
    by (simp add: engine_with_doc_a_def)
  show ?thesis
    using query_below_two_ready [OF r0, of echo_services "''What was found?''" "''router''"]
      query_below_two_ready [OF r1, of echo_services "''What was found?''" "''sub_question''"]
      c0 c1 q
    by (auto simp: echo_services_def format_response_def make_node_def doc_a_def)
qed

text \<open>
  The claim as stated fails with one category \<open>READY\<close>: the query is answered from the single
  category index.
\<close>

theorem query_single_category_counterexample:
  "add_documents new_multi_index_engine [doc_a] ''audit'' = Inr engine_with_doc_a
   \<and> length (ready_categories engine_with_doc_a) = 1
   \<and> query echo_services engine_with_doc_a ''What was found?'' ''router'' =
       Inr \<lparr>answer = ''Finding 1: access reviews overdue'', sources = []\<rparr>
   \<and> query echo_services engine_with_doc_a ''What was found?'' ''router''
       \<noteq> Inr no_documents_result"
  by (simp add: add_documents_def new_multi_index_engine_def engine_with_doc_a_def
      dict_keys_def rebuild_engines_def Let_def ready_categories_def query_def select_engine_def
      echo_services_def format_response_def make_node_def doc_a_def no_documents_result_def)

lemma add_documents_replaces_index:
  assumes "add_documents e documents index_name = Inr e'"
  shows "category_nodes e' index_name = map make_node documents"
  using add_documents_Inr(2) [OF assms]
  by (simp add: category_nodes_def map_of_dict_set)

text \<open>
  C5. The claim is that two successive \<open>add_documents\<close> calls for one category leave an index
  holding the documents of both calls. The code builds a new index from the documents of
  the call alone and stores it in place of the old one: after adding \<open>doc_a\<close> and then
  \<open>doc_b\<close> to \<open>audit\<close>, the index holds the node of \<open>doc_b\<close> only.
\<close>

theorem add_documents_twice_keeps_last_only:
  "add_documents new_multi_index_engine [doc_a] ''audit'' = Inr engine_with_doc_a
   \<and> category_nodes engine_with_doc_a ''audit'' = [make_node doc_a]
   \<and> add_documents engine_with_doc_a [doc_b] ''audit'' = Inr engine_with_doc_b
   \<and> category_nodes engine_with_doc_b ''audit'' = [make_node doc_b]
   \<and> make_node doc_a \<notin> set (category_nodes engine_with_doc_b ''audit'')"
  by (simp add: add_documents_def new_multi_index_engine_def engine_with_doc_a_def
      engine_with_doc_b_def dict_keys_def rebuild_engines_def Let_def category_nodes_def
      make_node_def doc_a_def doc_b_def)

section \<open>Properties of the answer cache\<close>

lemma collect_map_roundtrip:
  assumes "\<forall>x \<in> set xs. \<exists>y. f x = Inr y \<and> g y = x"
  shows "\<exists>ys. collect (map f xs) = Inr ys \<and> map g ys = xs"
  using assms
proof (induction xs)
  case Nil
  then show ?case by simp
next
  case (Cons x xs)
  then obtain y ys where "f x = Inr y" "g y = x" "collect (map f xs) = Inr ys" "map g ys = xs"
    by auto
  then show ?case by simp
qed

lemma dict_set_fresh: "k \<notin> fst ` set d \<Longrightarrow> dict_set k v d = d @ [(k, v)]"
  by (induction d) auto

lemma foldl_dict_set_fresh:
  "distinct (map fst items) \<Longrightarrow> fst ` set items \<inter> fst ` set d = {}
     \<Longrightarrow> foldl (\<lambda>d item. dict_set (fst item) (snd item) d) d items = d @ items"
proof (induction items arbitrary: d)
  case Nil
  then show ?case by simp
next
  case (Cons item items)
  have fresh: "fst item \<notin> fst ` set d" using Cons.prems(2) by auto
  have "fst ` set items \<inter> fst ` set (d @ [item]) = {}"
    using Cons.prems by auto
  then show ?case
    using Cons.IH [of "d @ [item]"] Cons.prems(1) dict_set_fresh [OF fresh, of "snd item"]
    by simp
qed

lemma json_roundtrip_native:
  "json_native v \<Longrightarrow> \<exists>j. json_dumps v = Inr j \<and> json_loads j = v"
proof (induction v)
  case (PList xs)
  have "\<forall>x \<in> set xs. \<exists>j. json_dumps x = Inr j \<and> json_loads j = x"
    using PList by (auto simp: list_all_iff)
  from collect_map_roundtrip [OF this] show ?case by auto
next
  case (PDict items)
  let ?f = "\<lambda>item. case json_key (fst item) of
                Inl e \<Rightarrow> Inl e
              | Inr k \<Rightarrow> (case json_dumps (snd item) of Inl e \<Rightarrow> Inl e | Inr j \<Rightarrow> Inr (k, j))"
  let ?g = "\<lambda>member. (KStr (fst member), json_loads (snd member))"
  have "\<exists>y. ?f item = Inr y \<and> ?g y = item" if "item \<in> set items" for item
  proof -
    obtain k v where item: "item = (k, v)" by (cases item)
    from PDict.prems that item have sk: "is_str_key k" and nv: "json_native v"
      by (auto simp: list_all_iff)
    from sk obtain s where k: "k = KStr s" by (cases k) auto
    have "v \<in> Basic_BNFs.snds item" using item by simp
    from PDict.IH [OF that this nv] obtain j where "json_dumps v = Inr j" "json_loads j = v"
      by auto
    then show ?thesis using item k by (simp add: json_key_def)
  qed
  then have "\<forall>item \<in> set items. \<exists>y. ?f item = Inr y \<and> ?g y = item" by blast
  from collect_map_roundtrip [OF this] obtain members
    where m: "collect (map ?f items) = Inr members" "map ?g members = items" by blast
  have "foldl (\<lambda>d member. dict_set (KStr (fst member)) (json_loads (snd member)) d) [] members
        = foldl (\<lambda>d item. dict_set (fst item) (snd item) d) [] (map ?g members)"
    by (simp add: foldl_map)
  also have "\<dots> = items"
    using foldl_dict_set_fresh [of items "[]"] PDict.prems m(2) by simp
  finally show ?case using m(1) by simp
qed simp_all

lemma make_key_prefix: "take (length ''rag_cache:'') (make_key H q) = ''rag_cache:''"
  by (simp add: make_key_def)

lemma cache_get_after_set:
  assumes "enabled c" "json_dumps v = Inr text" "now' < now + ttl c" "make_key H q' = make_key H q"
  shows "cache_get H (cache_set H c now q v) now' q' = Some (json_loads text)"
  using assms by (simp add: cache_get_def cache_set_def redis_get_def redis_setex_def)

lemma cache_get_after_clear:
  assumes "t \<le> t'"
  shows "cache_get H (cache_clear c t) t' q = None"
proof (cases "enabled c")
  case False
  then show ?thesis by (simp add: cache_get_def cache_clear_def)
next
  case True
  show ?thesis
  proof (cases "redis_get (client c) t (make_key H q)")
    case None
    then have "redis_get (client c) t' (make_key H q) = None"
      using assms by (auto simp: redis_get_def split: option.splits if_splits)
    moreover have "make_key H q \<notin> redis_keys (client c) t ''rag_cache:''"
      using None by (simp add: redis_keys_def)
    ultimately show ?thesis
      using True by (auto simp: cache_get_def cache_clear_def Let_def redis_delete_def redis_get_def)
  next
    case (Some j)
    then have "make_key H q \<in> redis_keys (client c) t ''rag_cache:''"
      using make_key_prefix [of H q] by (simp add: redis_keys_def)
    then show ?thesis
      using True by (auto simp: cache_get_def cache_clear_def Let_def redis_delete_def redis_get_def)
  qed
qed

text \<open>
  C9, as the code has it. With the cache enabled and the time to live not elapsed, \<open>set(q, v)\<close>
  followed by \<open>get(q)\<close> returns \<open>v\<close> unchanged for every payload \<open>v\<close> made of values JSON
  represents (\<open>None\<close>, booleans, integers, floats, strings, lists, dictionaries with string
  keys); so does \<open>get\<close> of any question with the same lower-cased, stripped text. After
  \<open>clear()\<close> every later \<open>get\<close> returns absent. The key of both operations is \<open>rag_cache:\<close>
  followed by the first 16 characters of the digest of the lower-cased, stripped question.
\<close>

theorem cache_round_trip_native:
  assumes "enabled c" and "json_native v" and "now' < now + ttl c"
  shows "cache_get H (cache_set H c now q v) now' q = Some v
       \<and> (py_strip (py_lower q') = py_strip (py_lower q)
            \<longrightarrow> cache_get H (cache_set H c now q v) now' q' = Some v)
       \<and> (t \<le> t' \<longrightarrow> cache_get H (cache_clear any_cache t) t' any_question = None)
       \<and> make_key H q = ''rag_cache:'' @ take 16 (H (py_strip (py_lower q)))"
proof -
  from json_roundtrip_native [OF assms(2)] obtain stored
    where stored: "json_dumps v = Inr stored" "json_loads stored = v" by blast
  have same: "cache_get H (cache_set H c now q v) now' q = Some v"
    using cache_get_after_set [OF assms(1) stored(1) assms(3), of H q q] stored(2) by simp
  have other: "cache_get H (cache_set H c now q v) now' q' = Some v"
    if "py_strip (py_lower q') = py_strip (py_lower q)"
  proof -
    have "make_key H q' = make_key H q" using that by (simp add: make_key_def)
    from cache_get_after_set [OF assms(1) stored(1) assms(3) this] stored(2) show ?thesis by simp
  qed
  show ?thesis
    using same other cache_get_after_clear by (simp add: make_key_def)
qed

lemma example_cache_enabled: "enabled example_cache" "ttl example_cache = 3600"
  by (simp_all add: example_cache_def new_cache_service_def default_settings_def)

theorem cache_round_trip_native_witness:
  "cache_get toy_digest (cache_set toy_digest example_cache 100 ''What is open?'' native_payload)
      3699 ''  what IS open?  '' = Some native_payload
   \<and> cache_get toy_digest
        (cache_clear (cache_set toy_digest example_cache 100 ''What is open?'' native_payload) 200)
        200 ''What is open?'' = None"
proof -
  have n: "json_native native_payload" by (simp add: native_payload_def)
  have t: "(3699::nat) < 100 + ttl example_cache" by (simp add: example_cache_enabled)
  have k: "py_strip (py_lower ''  what IS open?  '') = py_strip (py_lower ''What is open?'')"
    by code_simp
  show ?thesis
    using cache_round_trip_native [OF example_cache_enabled(1) n t,
        of toy_digest "''What is open?''" "''  what IS open?  ''" 200 200
           "cache_set toy_digest example_cache 100 ''What is open?'' native_payload"
           "''What is open?''"] k
    by simp
qed

text \<open>
  The claim as stated fails for a payload that holds a tuple: it comes back as a list.
\<close>

theorem cache_round_trip_counterexample:
  "enabled example_cache
   \<and> (101::nat) < 100 + ttl example_cache
   \<and> cache_get toy_digest (cache_set toy_digest example_cache 100 ''What is open?'' tuple_payload)
        101 ''What is open?'' =
       Some (PDict [(KStr ''answer'', PStr ''see pages''), (KStr ''pages'', PList [PInt 1, PInt 2])])
   \<and> cache_get toy_digest (cache_set toy_digest example_cache 100 ''What is open?'' tuple_payload)
        101 ''What is open?'' \<noteq> Some tuple_payload"
  by (simp add: example_cache_def new_cache_service_def default_settings_def cache_get_def
      cache_set_def tuple_payload_def json_key_def redis_get_def redis_setex_def)

section \<open>Properties of the application\<close>

lemma retriever_has_no_filter: "search_filter (get_retriever st) = None"
  by (simp add: get_retriever_def)

lemma ask_question_docs_ignore_user:
  assumes "get_current_user req1 = Inr u1" and "get_current_user req2 = Inr u2"
  shows "ask_question_docs rank app req1 question = ask_question_docs rank app req2 question"
  using assms by (simp add: ask_question_docs_def)

lemma filtered_search_accessible:
  assumes "''ALL'' \<notin> set (user_access_groups u)"
    and "d \<in> set (similarity_search ranked \<lparr>top_k = n, search_filter = Some (build_access_filter u)\<rparr>)"
  shows "\<exists>g \<in> set (user_access_groups u). md_get d ''access_group'' = Some g"
proof -
  from assms(2) have "d \<in> set (filter (filter_accepts (build_access_filter u)) ranked)"
    by (auto simp: similarity_search_def dest: in_set_takeD)
  then show ?thesis
    using assms(1) by (auto simp: filter_accepts_def build_access_filter_def split: option.splits)
qed

lemma upload_emea_started:
  "vector_store (upload_emea started_app) = [emea_chunk]"
  "map_option access_group (map_of (document_registry (upload_emea started_app)) ''job-1'') = Some ''EMEA_AUDIT''"
  "processing_jobs (upload_emea started_app) ''job-1'' = Some COMPLETED"
  "retriever (upload_emea started_app) = get_retriever default_settings"
  by (simp_all add: upload_emea_def started_app_def lifespan_def process_document_background_def
      ingest_file_def example_env_def Let_def add_documents_def new_multi_index_engine_def
      dict_keys_def)

text \<open>
  C1. The claim is that a requester without \<open>ALL\<close> only ever gets chunks whose
  \<open>access_group\<close> is one of the permitted groups, the access filter being passed into the
  similarity search. In the code the retriever is built without a filter and
  \<open>build_access_filter\<close> is never called: a viewer (permitted group \<open>GLOBAL_AUDIT\<close>) who asks a
  question gets the chunk of a document uploaded for \<open>EMEA_AUDIT\<close> (as ingested, the chunk
  carries no \<open>access_group\<close> at all), and from a store of tagged chunks gets the chunk tagged
  \<open>EMEA_AUDIT\<close>. (\<open>filtered_search_accessible\<close> above is what passing the filter would give.)
\<close>

theorem access_filter_not_applied:
  "get_current_user viewer_request =
     Inr \<lparr>role = ''viewer'', user_name = ''Viewer'', user_access_groups = [''GLOBAL_AUDIT'']\<rparr>
   \<and> map_option access_group (map_of (document_registry (upload_emea started_app)) ''job-1'')
       = Some ''EMEA_AUDIT''
   \<and> search_filter (retriever (upload_emea started_app)) = None
   \<and> ask_question_docs identity_ranking (upload_emea started_app) viewer_request
         ''How many findings are open?'' = Inr [emea_chunk]
   \<and> md_get emea_chunk ''access_group'' = None
   \<and> ask_question_docs identity_ranking tagged_app viewer_request ''What are the control gaps?''
       = Inr [tagged_emea_chunk, tagged_global_chunk]
   \<and> md_get tagged_emea_chunk ''access_group'' = Some ''EMEA_AUDIT''
   \<and> ''EMEA_AUDIT'' \<notin> set [''GLOBAL_AUDIT'']"
  by (simp add: upload_emea_started ask_question_docs_def ask_context_docs_def
      ask_retrieved_docs_def retriever_invoke_def similarity_search_def identity_ranking_def
      get_retriever_def default_settings_def viewer_request_def get_current_user_def
      USER_ROLES_def get_parents_for_children_def md_get_def emea_chunk_def
      tagged_app_def lifespan_def tagged_emea_chunk_def tagged_global_chunk_def
      upload_emea_def started_app_def process_document_background_def
      ingest_file_def example_env_def Let_def add_documents_def new_multi_index_engine_def
      dict_keys_def)

lemma process_document_background_keeps_cache:
  "cache (process_document_background env app job_id file_path fname cat grp) = cache app"
  by (simp add: process_document_background_def Let_def split: sum.splits prod.splits)

lemma delete_document_clears_cache:
  assumes "delete_document app now doc_id req = Inr (msg, app')" and "now \<le> t"
  shows "app_cache_get H app' t question = None"
proof -
  from assms(1) have "cache app' = map_option (\<lambda>c. cache_clear c now) (cache app)"
    by (auto simp: delete_document_def split: sum.splits if_splits option.splits)
  then show ?thesis
    using cache_get_after_clear [OF assms(2)]
    by (cases "cache app") (simp_all add: app_cache_get_def)
qed


text \<open>
  C2. The claim is that every ingestion and every deletion clears the answer cache.
  Deletion does (\<open>delete_document_clears_cache\<close> above); ingestion never touches the cache
  (\<open>process_document_background_keeps_cache\<close>): an answer cached at time 100 is still returned
  at time 200, after a document has been ingested and registered.
\<close>

theorem ingestion_keeps_cache_entries:
  "app_cache_get toy_digest cached_app 200 ''What is open?'' = Some native_payload
   \<and> dict_keys (document_registry cached_app) = []
   \<and> dict_keys (document_registry (upload_emea cached_app)) = [''job-1'']
   \<and> vector_store (upload_emea cached_app) = [emea_chunk]
   \<and> app_cache_get toy_digest (upload_emea cached_app) 200 ''What is open?'' = Some native_payload"
proof -
  have c: "cache (upload_emea cached_app) = cache cached_app"
    unfolding upload_emea_def by (rule process_document_background_keeps_cache)
  have g: "app_cache_get toy_digest cached_app 200 ''What is open?'' = Some native_payload"
    by (simp add: app_cache_get_def cached_app_def started_app_def lifespan_def
        new_cache_service_def default_settings_def cache_get_def cache_set_def
        native_payload_def json_key_def redis_get_def redis_setex_def)
  have r: "dict_keys (document_registry cached_app) = []"
    "dict_keys (document_registry (upload_emea cached_app)) = [''job-1'']"
    "vector_store (upload_emea cached_app) = [emea_chunk]"
    by (simp_all add: upload_emea_def cached_app_def started_app_def lifespan_def
        process_document_background_def ingest_file_def example_env_def Let_def
        add_documents_def new_multi_index_engine_def dict_keys_def)
  show ?thesis using c g r by (simp add: app_cache_get_def)
qed









end
